theory Spec2Isabelle
  imports Main "HOL-Library.Sublist"
begin

section \<open>The admin panel, as a model\<close>

text \<open>
  The admin panel is a React single-page application over a REST API. The model follows
  the TypeScript sources function by function. JavaScript values that a function tests
  for truthiness are modelled with their absent case written out: an optional string is
  a \<open>string option\<close>, and it is truthy exactly when it is present and not empty.
\<close>

subsection \<open>JavaScript helpers\<close>

text \<open>Truthiness of a value that is \<open>undefined\<close>/\<open>null\<close> or a string.\<close>

definition truthy :: "string option \<Rightarrow> bool" where
  "truthy v = (case v of None \<Rightarrow> False | Some s \<Rightarrow> s \<noteq> [])"

text \<open>\<open>s || undefined\<close> on a string \<open>s\<close>: the empty string is falsy.\<close>

definition or_undefined :: "string \<Rightarrow> string option" where
  "or_undefined s = (if s \<noteq> [] then Some s else None)"

text \<open>\<open>v || d\<close> on an optional string \<open>v\<close> and a string \<open>d\<close>.\<close>

definition or_default :: "string option \<Rightarrow> string \<Rightarrow> string" where
  "or_default v d = (case v of None \<Rightarrow> d | Some s \<Rightarrow> if s \<noteq> [] then s else d)"

text \<open>\<open>s.startsWith(p)\<close>.\<close>

definition startsWith :: "string \<Rightarrow> string \<Rightarrow> bool" where
  "startsWith s p = prefix p s"

subsection \<open>The shared HTTP client (api/client.ts, two versions)\<close>

text \<open>
  The sources hold two versions of the client module. The first passes
  \<open>import.meta.env.VITE_API_URL || '/api/admin'\<close> to \<open>axios.create\<close> as the base URL.
  The environment variable is \<open>None\<close> when it is not set.
\<close>

definition baseURL_first :: "string option \<Rightarrow> string" where
  "baseURL_first VITE_API_URL = or_default VITE_API_URL ''/api/admin''"

text \<open>
  The second version puts \<open>https://\<close> in front of a value that is not the default and
  does not start with \<open>http\<close>.
\<close>

definition baseURL_second :: "string option \<Rightarrow> string" where
  "baseURL_second VITE_API_URL =
     (let apiUrl = or_default VITE_API_URL ''/api/admin''
      in if apiUrl \<noteq> ''/api/admin'' \<and> \<not> startsWith apiUrl ''http''
         then ''https://'' @ apiUrl
         else apiUrl)"

text \<open>
  The browser state the interceptors touch: local storage (a dictionary of strings) and
  the window location.
\<close>

type_synonym storage = "string \<rightharpoonup> string"

definition getItem :: "storage \<Rightarrow> string \<Rightarrow> string option" where
  "getItem st k = st k"

definition removeItem :: "storage \<Rightarrow> string \<Rightarrow> storage" where
  "removeItem st k = st(k := None)"

record browser =
  localStorage :: storage
  location_href :: string

text \<open>
  A request as an API module hands it to the client: the verb, the path, the query
  parameters and the body. The body's type is left open: the client passes it on as it is.
\<close>

datatype verb = GET | POST | PUT | PATCH | DELETE | HEAD | OPTIONS

record 'd request =
  http_method :: verb
  url :: string
  params :: "(string \<times> string) list option"
  data :: "'d option"

text \<open>The request config the interceptors see has the headers as well.\<close>

record 'd request_config = "'d request" +
  headers :: "string \<rightharpoonup> string"

text \<open>
  The request interceptor, the same in both versions of the module: it reads
  \<open>admin_token\<close> from local storage and, when the token is truthy, sets the
  \<open>Authorization\<close> header.
\<close>

definition requestInterceptor :: "browser \<Rightarrow> 'd request_config \<Rightarrow> 'd request_config" where
  "requestInterceptor b config =
     (let token = getItem (localStorage b) ''admin_token''
      in case token of
           None \<Rightarrow> config
         | Some t \<Rightarrow>
             if t \<noteq> []
             then config\<lparr>headers := (headers config)(''Authorization'' \<mapsto> ''Bearer '' @ t)\<rparr>
             else config)"

text \<open>
  A response error may carry a response with a status; a settled promise is either
  rejected with an error or resolved with a value.
\<close>

record http_response =
  status :: int

record axios_error =
  response :: "http_response option"

datatype ('e, 'r) promise = Rejected 'e | Resolved 'r

text \<open>\<open>error.response?.status\<close>: \<open>undefined\<close> when the error has no response.\<close>

definition error_status :: "'a axios_error_scheme \<Rightarrow> int option" where
  "error_status err = map_option status (response err)"

text \<open>
  The response interceptor, the same in both versions: responses pass through; an error
  with status 401 clears the token and sends the browser to \<open>/login\<close>; every
  error is rejected again.
\<close>

definition onResponse :: "'r \<Rightarrow> ('e, 'r) promise" where
  "onResponse resp = Resolved resp"

definition onResponseError ::
  "browser \<Rightarrow> 'a axios_error_scheme \<Rightarrow> browser \<times> ('a axios_error_scheme, 'r) promise" where
  "onResponseError b err =
     (if error_status err = Some 401
      then (b\<lparr>localStorage := removeItem (localStorage b) ''admin_token'',
               location_href := ''/login''\<rparr>,
            Rejected err)
      else (b, Rejected err))"

subsection \<open>The API modules\<close>

text \<open>
  Each function of \<open>categoriesApi\<close>, \<open>productsApi\<close>, \<open>retailersApi\<close> and
  \<open>ordersApi\<close> builds one request. A template literal such as
  \<open>/categories/${id}\<close> is string concatenation. The \<open>list\<close> functions with
  an optional filter pass it as a query parameter only when it is truthy.
\<close>

definition categoriesApi_list :: "string option \<Rightarrow> 'd request" where
  "categoriesApi_list parentId =
     \<lparr>http_method = GET, url = ''/categories'',
      params =
        (case parentId of
           None \<Rightarrow> None
         | Some p \<Rightarrow> if p \<noteq> [] then Some [(''parent_id'', p)] else None),
      data = None\<rparr>"

definition categoriesApi_create :: "'d \<Rightarrow> 'd request" where
  "categoriesApi_create d =
     \<lparr>http_method = POST, url = ''/categories'', params = None, data = Some d\<rparr>"

definition categoriesApi_update :: "string \<Rightarrow> 'd \<Rightarrow> 'd request" where
  "categoriesApi_update i d =
     \<lparr>http_method = PATCH, url = ''/categories/'' @ i, params = None, data = Some d\<rparr>"

definition productsApi_list :: "string option \<Rightarrow> 'd request" where
  "productsApi_list categoryId =
     \<lparr>http_method = GET, url = ''/products'',
      params =
        (case categoryId of
           None \<Rightarrow> None
         | Some c \<Rightarrow> if c \<noteq> [] then Some [(''category_id'', c)] else None),
      data = None\<rparr>"

definition productsApi_create :: "'d \<Rightarrow> 'd request" where
  "productsApi_create d =
     \<lparr>http_method = POST, url = ''/products'', params = None, data = Some d\<rparr>"

definition productsApi_update :: "string \<Rightarrow> 'd \<Rightarrow> 'd request" where
  "productsApi_update i d =
     \<lparr>http_method = PATCH, url = ''/products/'' @ i, params = None, data = Some d\<rparr>"

definition productsApi_listVariants :: "string \<Rightarrow> 'd request" where
  "productsApi_listVariants productId =
     \<lparr>http_method = GET, url = ''/products/'' @ productId @ ''/variants'',
      params = None, data = None\<rparr>"

definition productsApi_createVariant :: "string \<Rightarrow> 'd \<Rightarrow> 'd request" where
  "productsApi_createVariant productId d =
     \<lparr>http_method = POST, url = ''/products/'' @ productId @ ''/variants'',
      params = None, data = Some d\<rparr>"

definition productsApi_updateVariant :: "string \<Rightarrow> 'd \<Rightarrow> 'd request" where
  "productsApi_updateVariant variantId d =
     \<lparr>http_method = PATCH, url = ''/products/variants/'' @ variantId,
      params = None, data = Some d\<rparr>"

definition retailersApi_list :: "'d request" where
  "retailersApi_list =
     \<lparr>http_method = GET, url = ''/retailers'', params = None, data = None\<rparr>"

definition retailersApi_create :: "'d \<Rightarrow> 'd request" where
  "retailersApi_create d =
     \<lparr>http_method = POST, url = ''/retailers'', params = None, data = Some d\<rparr>"

definition retailersApi_update :: "string \<Rightarrow> 'd \<Rightarrow> 'd request" where
  "retailersApi_update i d =
     \<lparr>http_method = PATCH, url = ''/retailers/'' @ i, params = None, data = Some d\<rparr>"

definition retailersApi_listProducts :: "string \<Rightarrow> 'd request" where
  "retailersApi_listProducts retailerId =
     \<lparr>http_method = GET, url = ''/retailers/'' @ retailerId @ ''/products'',
      params = None, data = None\<rparr>"

definition retailersApi_addProduct :: "string \<Rightarrow> 'd \<Rightarrow> 'd request" where
  "retailersApi_addProduct retailerId d =
     \<lparr>http_method = POST, url = ''/retailers/'' @ retailerId @ ''/products'',
      params = None, data = Some d\<rparr>"

definition retailersApi_updateProduct :: "string \<Rightarrow> 'd \<Rightarrow> 'd request" where
  "retailersApi_updateProduct mappingId d =
     \<lparr>http_method = PATCH, url = ''/retailer-products/'' @ mappingId,
      params = None, data = Some d\<rparr>"

definition ordersApi_list :: "(string \<times> string) list option \<Rightarrow> 'd request" where
  "ordersApi_list ps =
     \<lparr>http_method = GET, url = ''/orders'', params = ps, data = None\<rparr>"

definition ordersApi_get :: "string \<Rightarrow> 'd request" where
  "ordersApi_get i =
     \<lparr>http_method = GET, url = ''/orders/'' @ i, params = None, data = None\<rparr>"

text \<open>
  A call of one of the seventeen API functions with its arguments, and the request the
  call builds.
\<close>

datatype 'd api_call =
    CategoriesList "string option"
  | CategoriesCreate 'd
  | CategoriesUpdate string 'd
  | ProductsList "string option"
  | ProductsCreate 'd
  | ProductsUpdate string 'd
  | ProductsListVariants string
  | ProductsCreateVariant string 'd
  | ProductsUpdateVariant string 'd
  | RetailersList
  | RetailersCreate 'd
  | RetailersUpdate string 'd
  | RetailersListProducts string
  | RetailersAddProduct string 'd
  | RetailersUpdateProduct string 'd
  | OrdersList "(string \<times> string) list option"
  | OrdersGet string

fun request_of :: "'d api_call \<Rightarrow> 'd request" where
  "request_of (CategoriesList parentId) = categoriesApi_list parentId"
| "request_of (CategoriesCreate d) = categoriesApi_create d"
| "request_of (CategoriesUpdate i d) = categoriesApi_update i d"
| "request_of (ProductsList categoryId) = productsApi_list categoryId"
| "request_of (ProductsCreate d) = productsApi_create d"
| "request_of (ProductsUpdate i d) = productsApi_update i d"
| "request_of (ProductsListVariants productId) = productsApi_listVariants productId"
| "request_of (ProductsCreateVariant productId d) = productsApi_createVariant productId d"
| "request_of (ProductsUpdateVariant variantId d) = productsApi_updateVariant variantId d"
| "request_of RetailersList = retailersApi_list"
| "request_of (RetailersCreate d) = retailersApi_create d"
| "request_of (RetailersUpdate i d) = retailersApi_update i d"
| "request_of (RetailersListProducts retailerId) = retailersApi_listProducts retailerId"
| "request_of (RetailersAddProduct retailerId d) = retailersApi_addProduct retailerId d"
| "request_of (RetailersUpdateProduct mappingId d) = retailersApi_updateProduct mappingId d"
| "request_of (OrdersList ps) = ordersApi_list ps"
| "request_of (OrdersGet i) = ordersApi_get i"

text \<open>
  A resource path of the interface description: a fixed path, or a path with one
  parameter \<open>{id}\<close> between a fixed beginning and a fixed end. A path is an
  instance of the second kind when it starts with the beginning and what follows ends
  with the end.
\<close>

datatype resource = Fixed string | WithId string string

fun instance_of :: "resource \<Rightarrow> string \<Rightarrow> bool" where
  "instance_of (Fixed p) u = (u = p)"
| "instance_of (WithId pre suf) u = (prefix pre u \<and> suffix suf (drop (length pre) u))"

text \<open>The nine resource paths the interface description lists.\<close>

definition listedResources :: "resource list" where
  "listedResources =
     [Fixed ''/categories'',
      Fixed ''/products'',
      WithId ''/products/'' ''/variants'',
      WithId ''/products/variants/'' [],
      Fixed ''/retailers'',
      WithId ''/retailers/'' ''/products'',
      WithId ''/retailer-products/'' [],
      Fixed ''/orders'',
      WithId ''/orders/'' []]"

text \<open>The three paths of the update functions, which the description does not list.\<close>

definition updateResources :: "resource list" where
  "updateResources =
     [WithId ''/categories/'' [], WithId ''/products/'' [], WithId ''/retailers/'' []]"

definition targets :: "resource list \<Rightarrow> 'd request \<Rightarrow> bool" where
  "targets rs r = list_ex (\<lambda>t. instance_of t (url r)) rs"

subsection \<open>The query client (App.tsx)\<close>

text \<open>
  \<open>App.tsx\<close> creates the query client with default options for every query:
  \<open>staleTime: 30000\<close> and \<open>retry: 1\<close>. No \<open>useQuery\<close> call of the pages
  passes a \<open>retry\<close> of its own, so the default holds for every query.
\<close>

record query_options =
  staleTime :: nat
  retry :: nat

definition queryClient :: query_options where
  "queryClient = \<lparr>staleTime = 30000, retry = 1\<rparr>"

text \<open>
  What the option means is the query library's rule, which is not part of the
  repository: the library runs the query function and, when the attempt fails, runs it
  again as long as the number of failures so far is below \<open>retry\<close>. The attempts of a
  query are given by their number; the result is the number of times the function was
  run again, and how the last attempt settled.
\<close>

function runQuery ::
  "nat \<Rightarrow> (nat \<Rightarrow> ('e, 'r) promise) \<Rightarrow> nat \<Rightarrow> nat \<times> ('e, 'r) promise" where
  "runQuery retryOption queryFn failureCount =
     (case queryFn failureCount of
        Resolved r \<Rightarrow> (failureCount, Resolved r)
      | Rejected e \<Rightarrow>
          if failureCount < retryOption
          then runQuery retryOption queryFn (Suc failureCount)
          else (failureCount, Rejected e))"
  by pat_completeness auto
termination
  by (relation "measure (\<lambda>(retryOption, queryFn, failureCount). retryOption - failureCount)")
     auto

definition retries :: "query_options \<Rightarrow> (nat \<Rightarrow> ('e, 'r) promise) \<Rightarrow> nat" where
  "retries options queryFn = fst (runQuery (retry options) queryFn 0)"

subsection \<open>Entities (types/index.ts) and query keys\<close>

text \<open>
  The records of the backend rows that the pages below read. \<open>id\<close> and \<open>name\<close> are
  fields of several TypeScript interfaces; the record fields carry a prefix for the
  interface. Numbers are of a type \<open>'n\<close> left open.
\<close>

record product_category =
  pc_id :: string
  pc_name :: string
  pc_description :: "string option"
  pc_parent_id :: "string option"
  pc_created_at :: string



record 'n retailer =
  rt_id :: string
  rt_name :: string
  rt_phone :: "string option"
  rt_email :: "string option"
  rt_address :: "string option"
  rt_location_lat :: "'n option"
  rt_location_lng :: "'n option"
  rt_is_active :: bool
  rt_created_at :: string


text \<open>
  A query key is an array of strings, where an element read through \<open>?.id\<close> from a
  selection that is \<open>null\<close> is \<open>undefined\<close>.
\<close>

datatype key_part = KStr string | KUndefined

type_synonym query_key = "key_part list"

subsection \<open>CategoriesPage\<close>

record category_form =
  cf_name :: string
  cf_description :: string
  cf_parent_id :: string

text \<open>The \<open>data\<close> object that \<open>handleSubmit\<close> builds.\<close>

record category_data =
  cd_name :: string
  cd_description :: "string option"
  cd_parent_id :: "string option"

text \<open>
  The state of the page: the fetched list (the data of the \<open>['categories']\<close> query,
  \<open>[]\<close> until it arrives) and the three \<open>useState\<close> cells.
\<close>

record categories_page =
  cp_categories :: "product_category list"
  cp_modalOpen :: bool
  cp_editing :: "product_category option"
  cp_formData :: category_form

definition categories_init :: categories_page where
  "categories_init =
     \<lparr>cp_categories = [], cp_modalOpen = False, cp_editing = None,
      cp_formData = \<lparr>cf_name = [], cf_description = [], cf_parent_id = []\<rparr>\<rparr>"


definition categories_openCreate :: "categories_page \<Rightarrow> categories_page" where
  "categories_openCreate s =
     s\<lparr>cp_editing := None,
       cp_formData := \<lparr>cf_name = [], cf_description = [], cf_parent_id = []\<rparr>,
       cp_modalOpen := True\<rparr>"

definition categories_openEdit :: "product_category \<Rightarrow> categories_page \<Rightarrow> categories_page" where
  "categories_openEdit category s =
     s\<lparr>cp_editing := Some category,
       cp_formData :=
         \<lparr>cf_name = pc_name category,
          cf_description = or_default (pc_description category) [],
          cf_parent_id = or_default (pc_parent_id category) []\<rparr>,
       cp_modalOpen := True\<rparr>"

definition categories_closeModal :: "categories_page \<Rightarrow> categories_page" where
  "categories_closeModal s = s\<lparr>cp_modalOpen := False, cp_editing := None\<rparr>"

text \<open>
  A success handler calls \<open>queryClient.invalidateQueries\<close> and changes the page state:
  it returns the keys it invalidates, in call order, and the new state.
\<close>

definition categories_createMutation_onSuccess ::
  "categories_page \<Rightarrow> query_key list \<times> categories_page" where
  "categories_createMutation_onSuccess s = ([[KStr ''categories'']], categories_closeModal s)"

definition categories_updateMutation_onSuccess ::
  "categories_page \<Rightarrow> query_key list \<times> categories_page" where
  "categories_updateMutation_onSuccess s = ([[KStr ''categories'']], categories_closeModal s)"

definition categories_submitData :: "category_form \<Rightarrow> category_data" where
  "categories_submitData formData =
     \<lparr>cd_name = cf_name formData,
      cd_description = or_undefined (cf_description formData),
      cd_parent_id = or_undefined (cf_parent_id formData)\<rparr>"

text \<open>
  \<open>handleSubmit\<close>: the update mutation's function calls \<open>categoriesApi.update\<close> with
  the id of the category being edited, the create mutation's is \<open>categoriesApi.create\<close>.
\<close>

definition categories_handleSubmit :: "categories_page \<Rightarrow> category_data request" where
  "categories_handleSubmit s =
     (let d = categories_submitData (cp_formData s)
      in case cp_editing s of
           Some editing \<Rightarrow> categoriesApi_update (pc_id editing) d
         | None \<Rightarrow> categoriesApi_create d)"

text \<open>
  The options of the parent select, as (value, label): \<open>None\<close> with the empty value,
  then the fetched categories whose id is not \<open>editing?.id\<close>.
\<close>

definition categories_parentOptions :: "categories_page \<Rightarrow> (string \<times> string) list" where
  "categories_parentOptions s =
     ([], ''None'') #
     map (\<lambda>c. (pc_id c, pc_name c))
       (filter (\<lambda>c. Some (pc_id c) \<noteq> map_option pc_id (cp_editing s)) (cp_categories s))"

text \<open>
  What can happen to the page: the list query delivers data, the user clicks Add or the
  Edit button of a row of the list, types into a field, picks one of the options the
  select offers, closes the modal, or a mutation succeeds. Submitting does not change the
  state. An event the page cannot receive gives \<open>None\<close>.
\<close>

datatype categories_event =
    Fetched "product_category list"
  | ClickAdd
  | ClickEdit product_category
  | ChangeName string
  | ChangeDescription string
  | SelectParent string
  | CloseModal
  | CreateSucceeded
  | UpdateSucceeded

fun categories_step :: "categories_page \<Rightarrow> categories_event \<Rightarrow> categories_page option" where
  "categories_step s (Fetched cs) = Some (s\<lparr>cp_categories := cs\<rparr>)"
| "categories_step s ClickAdd = Some (categories_openCreate s)"
| "categories_step s (ClickEdit c) =
     (if c \<in> set (cp_categories s) then Some (categories_openEdit c s) else None)"
| "categories_step s (ChangeName v) =
     Some (s\<lparr>cp_formData := (cp_formData s)\<lparr>cf_name := v\<rparr>\<rparr>)"
| "categories_step s (ChangeDescription v) =
     Some (s\<lparr>cp_formData := (cp_formData s)\<lparr>cf_description := v\<rparr>\<rparr>)"
| "categories_step s (SelectParent v) =
     (if v \<in> set (map fst (categories_parentOptions s))
      then Some (s\<lparr>cp_formData := (cp_formData s)\<lparr>cf_parent_id := v\<rparr>\<rparr>)
      else None)"
| "categories_step s CloseModal = Some (categories_closeModal s)"
| "categories_step s CreateSucceeded = Some (snd (categories_createMutation_onSuccess s))"
| "categories_step s UpdateSucceeded = Some (snd (categories_updateMutation_onSuccess s))"

fun categories_run :: "categories_page \<Rightarrow> categories_event list \<Rightarrow> categories_page option" where
  "categories_run s [] = Some s"
| "categories_run s (e # es) =
     (case categories_step s e of None \<Rightarrow> None | Some s' \<Rightarrow> categories_run s' es)"

text \<open>
  The invariant of the page behind the parent select: while a category is being edited,
  the form never holds that category's own id as the parent to submit, unless the
  category came from the backend with itself as parent.
\<close>

definition no_new_self_parent :: "categories_page \<Rightarrow> bool" where
  "no_new_self_parent s =
     (case cp_editing s of
        None \<Rightarrow> True
      | Some e \<Rightarrow>
          cd_parent_id (categories_submitData (cp_formData s)) = Some (pc_id e) \<longrightarrow>
          pc_parent_id e = Some (pc_id e))"

subsection \<open>RetailersPage\<close>

record retailer_form =
  rf_name :: string
  rf_phone :: string
  rf_email :: string
  rf_address :: string
  rf_location_lat :: string
  rf_location_lng :: string
  rf_is_active :: bool

record 'n retailer_data =
  rd_name :: string
  rd_phone :: "string option"
  rd_email :: "string option"
  rd_address :: "string option"
  rd_location_lat :: "'n option"
  rd_location_lng :: "'n option"
  rd_is_active :: bool

record 'n retailers_page =
  rs_modalOpen :: bool
  rs_editing :: "'n retailer option"
  rs_formData :: retailer_form





text \<open>
  The \<open>data\<close> object of \<open>handleSubmit\<close>. \<open>parseFloat\<close> is the JavaScript engine's
  and is a parameter here.
\<close>

definition retailers_submitData :: "(string \<Rightarrow> 'n) \<Rightarrow> retailer_form \<Rightarrow> 'n retailer_data" where
  "retailers_submitData parseFloat formData =
     \<lparr>rd_name = rf_name formData,
      rd_phone = or_undefined (rf_phone formData),
      rd_email = or_undefined (rf_email formData),
      rd_address = or_undefined (rf_address formData),
      rd_location_lat =
        (if rf_location_lat formData \<noteq> [] then Some (parseFloat (rf_location_lat formData))
         else None),
      rd_location_lng =
        (if rf_location_lng formData \<noteq> [] then Some (parseFloat (rf_location_lng formData))
         else None),
      rd_is_active = rf_is_active formData\<rparr>"

definition retailers_handleSubmit ::
  "(string \<Rightarrow> 'n) \<Rightarrow> 'n retailers_page \<Rightarrow> 'n retailer_data request" where
  "retailers_handleSubmit parseFloat s =
     (let d = retailers_submitData parseFloat (rs_formData s)
      in case rs_editing s of
           Some editing \<Rightarrow> retailersApi_update (rt_id editing) d
         | None \<Rightarrow> retailersApi_create d)"

subsection \<open>ProductsPage\<close>

























subsection \<open>RetailerProductsPage\<close>
















subsection \<open>DataTable\<close>















subsection \<open>Order status badges (OrdersPage, OrderDetailPage)\<close>

text \<open>
  \<open>getStatusClass\<close> of OrdersPage is a \<open>switch\<close> on the status string with a
  \<open>default\<close> branch.
\<close>

definition getStatusClass :: "string \<Rightarrow> string" where
  "getStatusClass orderStatus =
     (if orderStatus = ''pending'' then ''pending''
      else if orderStatus = ''accepted'' \<or> orderStatus = ''fulfilled'' then ''active''
      else if orderStatus = ''rejected'' \<or> orderStatus = ''cancelled'' then ''inactive''
      else '''')"

text \<open>
  OrderDetailPage computes the class inline, with a nested conditional:
  \<open>status === 'pending' ? 'pending' : status === 'fulfilled' ? 'active' : 'inactive'\<close>.
\<close>

definition orderDetailStatusClass :: "string \<Rightarrow> string" where
  "orderDetailStatusClass orderStatus =
     (if orderStatus = ''pending'' then ''pending''
      else if orderStatus = ''fulfilled'' then ''active''
      else ''inactive'')"

text \<open>The five statuses the orders filter offers.\<close>

definition knownStatuses :: "string list" where
  "knownStatuses = [''pending'', ''accepted'', ''fulfilled'', ''rejected'', ''cancelled'']"

section \<open>Properties\<close>

subsection \<open>The response interceptor\<close>

text \<open>
  Claim C1: for every response error that reaches the response interceptor, an error
  whose response status is 401 removes \<open>admin_token\<close> from local storage (the other
  keys stay) and sets the window location to \<open>/login\<close>; every error, 401 or not, is
  propagated as a rejected promise; and an error whose status is not 401 (or that has
  no response at all) leaves local storage and the window location as they were.
\<close>

theorem onResponseError_401:
  "(error_status err = Some 401 \<longrightarrow>
      localStorage (fst (onResponseError b err)) = (localStorage b)(''admin_token'' := None) \<and>
      getItem (localStorage (fst (onResponseError b err))) ''admin_token'' = None \<and>
      location_href (fst (onResponseError b err)) = ''/login'') \<and>
   snd (onResponseError b err) = Rejected err \<and>
   (error_status err \<noteq> Some 401 \<longrightarrow> fst (onResponseError b err) = b)"
  by (simp add: onResponseError_def removeItem_def getItem_def)

theorem onResponseError_401_witness:
  "getItem (localStorage (fst (onResponseError
      \<lparr>localStorage = [''admin_token'' \<mapsto> ''abc''], location_href = ''/orders''\<rparr>
      \<lparr>response = Some \<lparr>status = 401\<rparr>\<rparr>))) ''admin_token'' = None \<and>
   location_href (fst (onResponseError
      \<lparr>localStorage = [''admin_token'' \<mapsto> ''abc''], location_href = ''/orders''\<rparr>
      \<lparr>response = Some \<lparr>status = 401\<rparr>\<rparr>)) = ''/login'' \<and>
   fst (onResponseError
      \<lparr>localStorage = [''admin_token'' \<mapsto> ''abc''], location_href = ''/orders''\<rparr>
      \<lparr>response = Some \<lparr>status = 500\<rparr>\<rparr>)
     = \<lparr>localStorage = [''admin_token'' \<mapsto> ''abc''], location_href = ''/orders''\<rparr>"
proof -
  let ?b = "\<lparr>localStorage = [''admin_token'' \<mapsto> ''abc''], location_href = ''/orders''\<rparr>"
  have unauthorized: "error_status \<lparr>response = Some \<lparr>status = 401\<rparr>\<rparr> = Some 401"
    by (simp add: error_status_def)
  have server_error: "error_status \<lparr>response = Some \<lparr>status = 500\<rparr>\<rparr> \<noteq> Some 401"
    by (simp add: error_status_def)
  from unauthorized server_error
    onResponseError_401 [of "\<lparr>response = Some \<lparr>status = 401\<rparr>\<rparr>" ?b]
    onResponseError_401 [of "\<lparr>response = Some \<lparr>status = 500\<rparr>\<rparr>" ?b]
  show ?thesis by blast
qed

subsection \<open>Retries\<close>

text \<open>
  Claim C2, as stated, says that a failed query is never retried. The query client is
  created with \<open>retry: 1\<close>: a query whose every attempt fails is run again once.
\<close>

theorem retries_counterexample:
  "retry queryClient \<noteq> 0 \<and>
   retries queryClient (\<lambda>attempt. Rejected () :: (unit, unit) promise) = 1"
  by (simp add: retries_def queryClient_def)

text \<open>
  Claim C2, amended: the query client's default is one retry, so for every query a failed
  request is retried at most once: once when the first attempt fails, and not at all
  when it succeeds.
\<close>

theorem retries_once:
  "retry queryClient = 1 \<and>
   retries queryClient queryFn = (case queryFn 0 of Rejected e \<Rightarrow> 1 | Resolved r \<Rightarrow> 0)"
  by (simp add: retries_def queryClient_def split: promise.splits)

subsection \<open>The base URL\<close>

text \<open>
  Claim C3, as stated, says that both versions of the client module take the value of
  \<open>VITE_API_URL\<close> as the base URL whenever it is set. The second version does not: a
  value such as \<open>api.example.com\<close> gets \<open>https://\<close> in front, and the two
  versions then differ.
\<close>

theorem baseURL_second_counterexample:
  "baseURL_second (Some ''api.example.com'') \<noteq> ''api.example.com'' \<and>
   baseURL_first (Some ''api.example.com'') \<noteq> baseURL_second (Some ''api.example.com'')"
  by (simp add: baseURL_second_def baseURL_first_def or_default_def startsWith_def)

text \<open>
  Claim C3, amended: with the variable unset both versions use \<open>/api/admin\<close>. The
  first version uses a non-empty value as it is. The second uses a non-empty value as it
  is when the value is \<open>/api/admin\<close> or starts with \<open>http\<close>, and \<open>https://\<close>
  followed by the value otherwise. The two versions agree exactly when the variable is
  unset or empty, is \<open>/api/admin\<close>, or starts with \<open>http\<close>.
\<close>

theorem baseURL_versions:
  "baseURL_first None = ''/api/admin'' \<and> baseURL_second None = ''/api/admin'' \<and>
   (v \<noteq> [] \<longrightarrow> baseURL_first (Some v) = v) \<and>
   (v \<noteq> [] \<and> (v = ''/api/admin'' \<or> startsWith v ''http'') \<longrightarrow> baseURL_second (Some v) = v) \<and>
   (v \<noteq> [] \<and> v \<noteq> ''/api/admin'' \<and> \<not> startsWith v ''http'' \<longrightarrow>
      baseURL_second (Some v) = ''https://'' @ v) \<and>
   (baseURL_first env = baseURL_second env \<longleftrightarrow>
      \<not> truthy env \<or> env = Some ''/api/admin'' \<or> (\<exists>u. env = Some u \<and> startsWith u ''http''))"
  by (auto simp add: baseURL_second_def baseURL_first_def or_default_def truthy_def Let_def
      split: option.splits)

theorem baseURL_versions_witness:
  "baseURL_first (Some ''http://localhost:8000'') = ''http://localhost:8000'' \<and>
   baseURL_second (Some ''http://localhost:8000'') = ''http://localhost:8000'' \<and>
   baseURL_second (Some ''api.example.com'') = ''https://'' @ ''api.example.com''"
proof -
  have local: "''http://localhost:8000'' \<noteq> [] \<and> startsWith ''http://localhost:8000'' ''http''"
    by (simp add: startsWith_def)
  have bare: "''api.example.com'' \<noteq> [] \<and> ''api.example.com'' \<noteq> ''/api/admin'' \<and>
      \<not> startsWith ''api.example.com'' ''http''"
    by (simp add: startsWith_def)
  from local bare
    baseURL_versions [of "''http://localhost:8000''"] baseURL_versions [of "''api.example.com''"]
  show ?thesis by blast
qed

subsection \<open>The request interceptor\<close>

text \<open>
  Claim C4, as stated, says that the \<open>Authorization\<close> header is set whenever local
  storage holds a value under \<open>admin_token\<close>. The interceptor tests the token for
  truthiness: when the stored value is the empty string, no header is set.
\<close>

theorem requestInterceptor_empty_token_counterexample:
  "getItem (localStorage \<lparr>localStorage = [''admin_token'' \<mapsto> []], location_href = ''/''\<rparr>)
     ''admin_token'' = Some [] \<and>
   headers (requestInterceptor
       \<lparr>localStorage = [''admin_token'' \<mapsto> []], location_href = ''/''\<rparr>
       \<lparr>http_method = GET, url = ''/orders'', params = None, data = None :: unit option,
        headers = Map.empty\<rparr>)
     ''Authorization'' \<noteq> Some (''Bearer '' @ [])"
  by (simp add: requestInterceptor_def getItem_def)

text \<open>
  Claim C4, amended: for every outgoing request, if local storage holds a non-empty
  value under \<open>admin_token\<close>, the request interceptor sets the \<open>Authorization\<close>
  header to \<open>Bearer\<close>, a space and that value, and changes nothing else of the
  config; if no value or the empty string is stored, the config is returned unchanged.
\<close>

theorem requestInterceptor_token:
  "(getItem (localStorage b) ''admin_token'' = Some t \<and> t \<noteq> [] \<longrightarrow>
      requestInterceptor b config =
        config\<lparr>headers := (headers config)(''Authorization'' \<mapsto> ''Bearer '' @ t)\<rparr>) \<and>
   (\<not> truthy (getItem (localStorage b) ''admin_token'') \<longrightarrow> requestInterceptor b config = config)"
  by (auto simp add: requestInterceptor_def truthy_def split: option.splits)

theorem requestInterceptor_token_witness:
  "requestInterceptor
       \<lparr>localStorage = [''admin_token'' \<mapsto> ''abc''], location_href = ''/''\<rparr>
       \<lparr>http_method = GET, url = ''/orders'', params = None, data = None :: unit option,
        headers = Map.empty\<rparr>
     = \<lparr>http_method = GET, url = ''/orders'', params = None, data = None,
        headers = [''Authorization'' \<mapsto> ''Bearer abc'']\<rparr> \<and>
   requestInterceptor \<lparr>localStorage = Map.empty, location_href = ''/''\<rparr>
       \<lparr>http_method = GET, url = ''/orders'', params = None, data = None :: unit option,
        headers = Map.empty\<rparr>
     = \<lparr>http_method = GET, url = ''/orders'', params = None, data = None, headers = Map.empty\<rparr>"
proof -
  let ?config = "\<lparr>http_method = GET, url = ''/orders'', params = None, data = None :: unit option,
      headers = Map.empty\<rparr>"
  let ?signed_in = "\<lparr>localStorage = [''admin_token'' \<mapsto> ''abc''], location_href = ''/''\<rparr>"
  let ?signed_out = "\<lparr>localStorage = Map.empty, location_href = ''/''\<rparr>"
  have stored: "getItem (localStorage ?signed_in) ''admin_token'' = Some ''abc'' \<and> ''abc'' \<noteq> []"
    by (simp add: getItem_def)
  have absent: "\<not> truthy (getItem (localStorage ?signed_out) ''admin_token'')"
    by (simp add: getItem_def truthy_def)
  have "requestInterceptor ?signed_in ?config =
      ?config\<lparr>headers := (headers ?config)(''Authorization'' \<mapsto> ''Bearer '' @ ''abc'')\<rparr>"
    by (rule requestInterceptor_token [THEN conjunct1, THEN mp, OF stored])
  moreover have "requestInterceptor ?signed_out ?config = ?config"
    by (rule requestInterceptor_token [THEN conjunct2, THEN mp, OF absent])
  ultimately show ?thesis by simp
qed

subsection \<open>Paths and verbs of the API modules\<close>

text \<open>
  A path is an instance of a path with a parameter exactly when it is the beginning, some
  id and the end, put together.
\<close>

lemma instance_of_WithId_iff:
  "instance_of (WithId pre suf) u \<longleftrightarrow> (\<exists>i. u = pre @ i @ suf)"
  by (auto simp add: prefix_def suffix_def)

lemma suffix_self_append: "suffix suf (i @ suf)"
  by (simp add: suffix_def)

text \<open>
  Claim C5, as stated, says that every request of the four API modules targets one of
  the nine listed resource paths. \<open>categoriesApi.update\<close> sends its request to
  \<open>/categories/{id}\<close>, which is none of them.
\<close>

theorem api_update_path_counterexample:
  "url (request_of (CategoriesUpdate ''c1'' ())) = ''/categories/c1'' \<and>
   \<not> targets listedResources (request_of (CategoriesUpdate ''c1'' ()))"
  by (simp add: targets_def listedResources_def categoriesApi_update_def suffix_def)

text \<open>
  Claim C5, amended: every request built by the four API modules uses GET, POST or PATCH
  and targets one of the nine listed resource paths or one of \<open>/categories/{id}\<close>,
  \<open>/products/{id}\<close>, \<open>/retailers/{id}\<close>; these three are the paths of the
  three \<open>update\<close> functions, and every other function targets one of the nine.
\<close>

theorem api_requests:
  "http_method (request_of call) \<in> {GET, POST, PATCH} \<and>
   targets (listedResources @ updateResources) (request_of call) \<and>
   (case call of
      CategoriesUpdate i d \<Rightarrow> url (request_of call) = ''/categories/'' @ i
    | ProductsUpdate i d \<Rightarrow> url (request_of call) = ''/products/'' @ i
    | RetailersUpdate i d \<Rightarrow> url (request_of call) = ''/retailers/'' @ i
    | _ \<Rightarrow> targets listedResources (request_of call))"
  by (cases call)
     (simp_all add: targets_def listedResources_def updateResources_def suffix_self_append
      categoriesApi_list_def categoriesApi_create_def categoriesApi_update_def
      productsApi_list_def productsApi_create_def productsApi_update_def
      productsApi_listVariants_def productsApi_createVariant_def productsApi_updateVariant_def
      retailersApi_list_def retailersApi_create_def retailersApi_update_def
      retailersApi_listProducts_def retailersApi_addProduct_def retailersApi_updateProduct_def
      ordersApi_list_def ordersApi_get_def)

subsection \<open>Success handlers of the mutations\<close>




subsection \<open>Payloads of the form submits\<close>

text \<open>
  Claim C7: for every state of the retailer form, submitting sends the \<open>data\<close> object
  as the body of the request (a PATCH to the edited retailer's path, or a POST to
  \<open>/retailers\<close>), in which \<open>name\<close> and \<open>is_active\<close> are the form's values,
  \<open>phone\<close>, \<open>email\<close> and \<open>address\<close> are absent when the form value is the empty
  string and the form value otherwise, and \<open>location_lat\<close> and \<open>location_lng\<close> are
  absent when empty and the form value converted by \<open>parseFloat\<close> otherwise. The
  category form's \<open>description\<close> and \<open>parent_id\<close> follow the same rule.
\<close>

theorem submit_payload_shape:
  "(let fd = rs_formData s; d = retailers_submitData parseFloat fd in
      retailers_handleSubmit parseFloat s =
        (case rs_editing s of
           Some e \<Rightarrow> \<lparr>http_method = PATCH, url = ''/retailers/'' @ rt_id e, params = None, data = Some d\<rparr>
         | None \<Rightarrow> \<lparr>http_method = POST, url = ''/retailers'', params = None, data = Some d\<rparr>) \<and>
      rd_name d = rf_name fd \<and> rd_is_active d = rf_is_active fd \<and>
      rd_phone d = (if rf_phone fd = [] then None else Some (rf_phone fd)) \<and>
      rd_email d = (if rf_email fd = [] then None else Some (rf_email fd)) \<and>
      rd_address d = (if rf_address fd = [] then None else Some (rf_address fd)) \<and>
      rd_location_lat d =
        (if rf_location_lat fd = [] then None else Some (parseFloat (rf_location_lat fd))) \<and>
      rd_location_lng d =
        (if rf_location_lng fd = [] then None else Some (parseFloat (rf_location_lng fd)))) \<and>
   (let cf = cp_formData c; d = categories_submitData cf in
      categories_handleSubmit c =
        (case cp_editing c of
           Some e \<Rightarrow> \<lparr>http_method = PATCH, url = ''/categories/'' @ pc_id e, params = None, data = Some d\<rparr>
         | None \<Rightarrow> \<lparr>http_method = POST, url = ''/categories'', params = None, data = Some d\<rparr>) \<and>
      cd_name d = cf_name cf \<and>
      cd_description d = (if cf_description cf = [] then None else Some (cf_description cf)) \<and>
      cd_parent_id d = (if cf_parent_id cf = [] then None else Some (cf_parent_id cf)))"
  by (simp add: Let_def retailers_submitData_def categories_submitData_def or_undefined_def
      retailers_handleSubmit_def categories_handleSubmit_def
      retailersApi_update_def retailersApi_create_def
      categoriesApi_update_def categoriesApi_create_def
      split: option.splits)

subsection \<open>Status badges\<close>

text \<open>
  Claim C8, as stated, says that the two status-to-class mappings are the same function.
  They are not: on a string outside the five known statuses OrdersPage yields the empty
  class and OrderDetailPage yields \<open>inactive\<close>.
\<close>

theorem statusClass_differs_counterexample:
  "getStatusClass ''shipped'' \<noteq> orderDetailStatusClass ''shipped''"
  by (simp add: getStatusClass_def orderDetailStatusClass_def)

text \<open>
  Claim C8, amended: the two mappings coincide on \<open>pending\<close>, \<open>fulfilled\<close>,
  \<open>rejected\<close> and \<open>cancelled\<close>; on every string that is none of the five known
  statuses, OrdersPage gives the empty class and OrderDetailPage gives \<open>inactive\<close>.
\<close>

theorem statusClass_agreement:
  "(orderStatus \<in> {''pending'', ''fulfilled'', ''rejected'', ''cancelled''} \<longrightarrow>
      getStatusClass orderStatus = orderDetailStatusClass orderStatus) \<and>
   (orderStatus \<notin> set knownStatuses \<longrightarrow>
      getStatusClass orderStatus = '''' \<and> orderDetailStatusClass orderStatus = ''inactive'')"
  by (auto simp add: getStatusClass_def orderDetailStatusClass_def knownStatuses_def)

theorem statusClass_agreement_witness:
  "getStatusClass ''rejected'' = orderDetailStatusClass ''rejected'' \<and>
   getStatusClass ''shipped'' = '''' \<and> orderDetailStatusClass ''shipped'' = ''inactive''"
  using statusClass_agreement [of "''rejected''"] statusClass_agreement [of "''shipped''"]
  by (simp add: knownStatuses_def)

subsection \<open>DataTable\<close>












subsection \<open>The parent select of the category form\<close>

lemma categories_step_invariant:
  "no_new_self_parent s \<Longrightarrow> categories_step s ev = Some s' \<Longrightarrow> no_new_self_parent s'"
  by (cases ev)
     (auto simp add: no_new_self_parent_def categories_submitData_def or_undefined_def
        categories_openCreate_def categories_openEdit_def categories_closeModal_def
        categories_parentOptions_def or_default_def
        categories_createMutation_onSuccess_def categories_updateMutation_onSuccess_def
        split: option.splits if_splits)

lemma categories_run_invariant:
  "no_new_self_parent s \<Longrightarrow> categories_run s evs = Some s' \<Longrightarrow> no_new_self_parent s'"
  by (induction evs arbitrary: s) (auto split: option.splits dest: categories_step_invariant)

lemma categories_init_invariant: "no_new_self_parent categories_init"
  by (simp add: no_new_self_parent_def categories_init_def)

text \<open>
  Claim C10, as stated, says that no submission of the edit form can send the edited
  category's own id as its \<open>parent_id\<close>. \<open>openEdit\<close> copies the category's
  \<open>parent_id\<close> into the form, so for a fetched category that already is its own
  parent, clicking Edit and submitting sends a PATCH to that category with its own id as
  \<open>parent_id\<close>.
\<close>

theorem self_parent_counterexample:
  "(case categories_run categories_init
      [Fetched [\<lparr>pc_id = ''c1'', pc_name = ''Feed'', pc_description = None,
          pc_parent_id = Some ''c1'', pc_created_at = ''2024-01-01''\<rparr>],
       ClickEdit \<lparr>pc_id = ''c1'', pc_name = ''Feed'', pc_description = None,
          pc_parent_id = Some ''c1'', pc_created_at = ''2024-01-01''\<rparr>] of
      None \<Rightarrow> False
    | Some s \<Rightarrow>
        map_option pc_id (cp_editing s) = Some ''c1'' \<and>
        http_method (categories_handleSubmit s) = PATCH \<and>
        url (categories_handleSubmit s) = ''/categories/c1'' \<and>
        map_option cd_parent_id (data (categories_handleSubmit s)) = Some (Some ''c1''))"
  by (simp add: categories_init_def categories_openEdit_def or_default_def
      categories_handleSubmit_def categories_submitData_def or_undefined_def
      categoriesApi_update_def)

text \<open>
  Claim C10, amended: the parent select offers exactly the fetched categories other than
  the category being edited, plus a \<open>None\<close> option whose empty value is submitted as
  an absent \<open>parent_id\<close>; consequently, in every state the page reaches from its
  initial state, submitting the edit form of a category that is not already its own
  parent sends a PATCH for that category whose \<open>parent_id\<close> is not the category's
  own id.
\<close>

theorem parent_select:
  "set (map fst (categories_parentOptions s)) =
     insert [] {pc_id c | c. c \<in> set (cp_categories s) \<and>
                  Some (pc_id c) \<noteq> map_option pc_id (cp_editing s)} \<and>
   cd_parent_id (categories_submitData ((cp_formData s)\<lparr>cf_parent_id := []\<rparr>)) = None \<and>
   (categories_run categories_init evs = Some s \<and> cp_editing s = Some e \<and>
      pc_parent_id e \<noteq> Some (pc_id e) \<longrightarrow>
      http_method (categories_handleSubmit s) = PATCH \<and>
      url (categories_handleSubmit s) = ''/categories/'' @ pc_id e \<and>
      data (categories_handleSubmit s) = Some (categories_submitData (cp_formData s)) \<and>
      cd_parent_id (categories_submitData (cp_formData s)) \<noteq> Some (pc_id e))"
proof -
  have options: "set (map fst (categories_parentOptions s)) =
     insert [] {pc_id c | c. c \<in> set (cp_categories s) \<and>
                  Some (pc_id c) \<noteq> map_option pc_id (cp_editing s)}"
    by (auto simp add: categories_parentOptions_def)
  have none: "cd_parent_id (categories_submitData ((cp_formData s)\<lparr>cf_parent_id := []\<rparr>)) = None"
    by (simp add: categories_submitData_def or_undefined_def)
  have other_parent: "cd_parent_id (categories_submitData (cp_formData s)) \<noteq> Some (pc_id e)"
    if "categories_run categories_init evs = Some s" "cp_editing s = Some e"
       "pc_parent_id e \<noteq> Some (pc_id e)"
  proof -
    have "no_new_self_parent s"
      using categories_run_invariant [OF categories_init_invariant that(1)] .
    with that(2,3) show ?thesis
      by (auto simp add: no_new_self_parent_def)
  qed
  have patch: "http_method (categories_handleSubmit s) = PATCH \<and>
      url (categories_handleSubmit s) = ''/categories/'' @ pc_id e \<and>
      data (categories_handleSubmit s) = Some (categories_submitData (cp_formData s))"
    if "cp_editing s = Some e"
    using that by (simp add: categories_handleSubmit_def categoriesApi_update_def)
  from options none other_parent patch show ?thesis by blast
qed

theorem parent_select_witness:
  "categories_run categories_init
      [Fetched [\<lparr>pc_id = ''c1'', pc_name = ''Feed'', pc_description = None,
          pc_parent_id = None, pc_created_at = ''2024-01-01''\<rparr>,
         \<lparr>pc_id = ''c2'', pc_name = ''Medicine'', pc_description = None,
          pc_parent_id = None, pc_created_at = ''2024-01-02''\<rparr>],
       ClickEdit \<lparr>pc_id = ''c1'', pc_name = ''Feed'', pc_description = None,
          pc_parent_id = None, pc_created_at = ''2024-01-01''\<rparr>,
       SelectParent ''c2'']
     = Some \<lparr>cp_categories = [\<lparr>pc_id = ''c1'', pc_name = ''Feed'', pc_description = None,
          pc_parent_id = None, pc_created_at = ''2024-01-01''\<rparr>,
         \<lparr>pc_id = ''c2'', pc_name = ''Medicine'', pc_description = None,
          pc_parent_id = None, pc_created_at = ''2024-01-02''\<rparr>],
        cp_modalOpen = True,
        cp_editing = Some \<lparr>pc_id = ''c1'', pc_name = ''Feed'', pc_description = None,
          pc_parent_id = None, pc_created_at = ''2024-01-01''\<rparr>,
        cp_formData = \<lparr>cf_name = ''Feed'', cf_description = [], cf_parent_id = ''c2''\<rparr>\<rparr> \<and>
   cd_parent_id (categories_submitData
       \<lparr>cf_name = ''Feed'', cf_description = [], cf_parent_id = ''c2''\<rparr>) \<noteq> Some ''c1''"
proof -
  let ?c1 = "\<lparr>pc_id = ''c1'', pc_name = ''Feed'', pc_description = None,
          pc_parent_id = None, pc_created_at = ''2024-01-01''\<rparr>"
  let ?c2 = "\<lparr>pc_id = ''c2'', pc_name = ''Medicine'', pc_description = None,
          pc_parent_id = None, pc_created_at = ''2024-01-02''\<rparr>"
  let ?fd = "\<lparr>cf_name = ''Feed'', cf_description = [], cf_parent_id = ''c2''\<rparr>"
  let ?s = "\<lparr>cp_categories = [?c1, ?c2], cp_modalOpen = True, cp_editing = Some ?c1,
        cp_formData = ?fd\<rparr>"
  let ?evs = "[Fetched [?c1, ?c2], ClickEdit ?c1, SelectParent ''c2'']"
  have run: "categories_run categories_init ?evs = Some ?s"
    by (simp add: categories_init_def categories_openEdit_def or_default_def
        categories_parentOptions_def)
  have editing: "cp_editing ?s = Some ?c1" by simp
  have no_parent: "pc_parent_id ?c1 \<noteq> Some (pc_id ?c1)" by simp
  have "cd_parent_id (categories_submitData (cp_formData ?s)) \<noteq> Some (pc_id ?c1)"
    using parent_select [of ?s ?evs ?c1] run editing no_parent by blast
  then have "cd_parent_id (categories_submitData ?fd) \<noteq> Some ''c1''" by simp
  with run show ?thesis by blast
qed

end
